theory Spec2Isabelle
  imports Complex_Main
begin

section \<open>Instrument algebra (pyoption/classes.py)\<close>

text \<open>
  Numbers of the algebra layer (strikes, spot prices, payoffs) are Python ints and finite
  floats; every such number is a rational, so they are modelled by \<open>rat\<close> with exact
  arithmetic (float rounding is not modelled). Quantities are Python ints.
\<close>

datatype OptionType = CALL | PUT

datatype ExerciseType = EUROPEAN | AMERICAN

datatype error = ValueError | TypeError | KeyError | ZeroDivisionError | RuntimeError

text \<open>
  An instance of class \<open>Option\<close>. The class attribute \<open>option_type\<close> is \<open>None\<close> on the
  base class and set by the subclasses \<open>CallOption\<close> and \<open>PutOption\<close>.
\<close>

record Option =
  option_type :: "OptionType option"
  exercise_price :: rat
  exercise_type :: ExerciseType
  time_to_expiration :: "rat option"

definition CallOption :: "rat \<Rightarrow> rat option \<Rightarrow> ExerciseType \<Rightarrow> Option" where
  "CallOption k tte et =
     \<lparr>option_type = Some CALL, exercise_price = k, exercise_type = et,
      time_to_expiration = tte\<rparr>"

definition PutOption :: "rat \<Rightarrow> rat option \<Rightarrow> ExerciseType \<Rightarrow> Option" where
  "PutOption k tte et =
     \<lparr>option_type = Some PUT, exercise_price = k, exercise_type = et,
      time_to_expiration = tte\<rparr>"

subsection \<open>Python's built-in hash\<close>

text \<open>
  \<open>Option.__hash__\<close> hashes the tuple \<open>(option_type, exercise_price, exercise_type)\<close>.
  The interpreter computes a tuple's hash from the hashes of its items, an enum member's
  hash from its name (a string hash, salted per process) and a number's hash by the
  documented reduction modulo the prime \<open>sys.hash_info.modulus\<close>. The string hash,
  the hash of \<open>None\<close> and the tuple combiner are parameters of the model; the numeric
  hash is written out for a 64-bit build.
\<close>

record hash_env =
  hash_str :: "string \<Rightarrow> int"
  hash_None :: int
  hash_tuple :: "int list \<Rightarrow> int"

definition hash_modulus :: int where
  "hash_modulus = 2 ^ 61 - 1"

definition hash_inf :: int where
  "hash_inf = 314159"

definition hash_number :: "rat \<Rightarrow> int" where
  "hash_number q =
     (let (m, n) = quotient_of q;
          P = hash_modulus;
          hash_value = (if n mod P = 0 then hash_inf
                        else (\<bar>m\<bar> mod P) * (n ^ nat (P - 2) mod P) mod P);
          hash_value = (if m < 0 then - hash_value else hash_value)
      in if hash_value = - 1 then - 2 else hash_value)"

fun OptionType_name :: "OptionType \<Rightarrow> string" where
  "OptionType_name CALL = ''CALL''"
| "OptionType_name PUT = ''PUT''"

fun ExerciseType_name :: "ExerciseType \<Rightarrow> string" where
  "ExerciseType_name EUROPEAN = ''EUROPEAN''"
| "ExerciseType_name AMERICAN = ''AMERICAN''"

definition hash_option_type :: "hash_env \<Rightarrow> OptionType option \<Rightarrow> int" where
  "hash_option_type env ot =
     (case ot of None \<Rightarrow> hash_None env | Some c \<Rightarrow> hash_str env (OptionType_name c))"

definition Option_hash :: "hash_env \<Rightarrow> Option \<Rightarrow> int" where
  "Option_hash env self =
     hash_tuple env
       [hash_option_type env (option_type self),
        hash_number (exercise_price self),
        hash_str env (ExerciseType_name (exercise_type self))]"

definition Option_eq :: "hash_env \<Rightarrow> Option \<Rightarrow> Option \<Rightarrow> bool" where
  "Option_eq env self other \<longleftrightarrow> Option_hash env self = Option_hash env other"

definition Option_value :: "Option \<Rightarrow> rat \<Rightarrow> error + rat" where
  "Option_value self spot_price =
     (if option_type self = Some CALL then Inr (max (spot_price - exercise_price self) 0)
      else if option_type self = Some PUT then Inr (max (exercise_price self - spot_price) 0)
      else Inl ValueError)"

subsection \<open>The portfolio's dictionary\<close>

text \<open>
  A Python dict keyed by Options, in insertion order. A key matches a stored key when
  the hashes agree and \<open>__eq__\<close> holds; \<open>__eq__\<close> is itself the comparison of the
  hashes. Storing under a key that matches a stored one replaces the value and keeps the
  stored key object.
\<close>

type_synonym dict = "(Option \<times> int) list"

fun dict_get :: "hash_env \<Rightarrow> dict \<Rightarrow> Option \<Rightarrow> int \<Rightarrow> int" where
  "dict_get env [] k dflt = dflt"
| "dict_get env ((k', v) # d) k dflt =
     (if Option_eq env k' k then v else dict_get env d k dflt)"

fun dict_set :: "hash_env \<Rightarrow> dict \<Rightarrow> Option \<Rightarrow> int \<Rightarrow> dict" where
  "dict_set env [] k v = [(k, v)]"
| "dict_set env ((k', v') # d) k v =
     (if Option_eq env k' k then (k', v) # d else (k', v') # dict_set env d k v)"

fun dict_contains :: "hash_env \<Rightarrow> dict \<Rightarrow> Option \<Rightarrow> bool" where
  "dict_contains env [] k = False"
| "dict_contains env ((k', v) # d) k = (Option_eq env k' k \<or> dict_contains env d k)"

record OptionPortfolio =
  options :: dict

text \<open>\<open>OptionPortfolio.__init__\<close>: the comprehension \<open>{opt: cnt for opt, cnt in options}\<close>.\<close>

definition OptionPortfolio_init :: "hash_env \<Rightarrow> (Option \<times> int) list \<Rightarrow> OptionPortfolio" where
  "OptionPortfolio_init env opts =
     \<lparr>options = fold (\<lambda>(opt, cnt) d. dict_set env d opt cnt) opts []\<rparr>"

text \<open>The right operand of an arithmetic operator: an Option, a portfolio, or anything else.\<close>

datatype operand = AnOption Option | APortfolio OptionPortfolio | Other

text \<open>
  The portfolio's operators mutate the receiver's dict and return the receiver; the
  model returns the updated portfolio.
\<close>

definition OptionPortfolio_mul :: "OptionPortfolio \<Rightarrow> int \<Rightarrow> OptionPortfolio" where
  "OptionPortfolio_mul self n = \<lparr>options = map (\<lambda>(opt, cnt). (opt, cnt * n)) (options self)\<rparr>"

definition OptionPortfolio_neg :: "OptionPortfolio \<Rightarrow> OptionPortfolio" where
  "OptionPortfolio_neg self = \<lparr>options = map (\<lambda>(opt, cnt). (opt, cnt * - 1)) (options self)\<rparr>"

text \<open>
  The keys visited by \<open>set(self.options.keys()) | set(other.options.keys())\<close>: one per
  class of matching keys. Python leaves the iteration order of a set open; the model
  visits the receiver's keys first.
\<close>

definition union_keys :: "hash_env \<Rightarrow> dict \<Rightarrow> dict \<Rightarrow> Option list" where
  "union_keys env d1 d2 = map fst d1 @ filter (\<lambda>k. \<not> dict_contains env d1 k) (map fst d2)"

definition OptionPortfolio_add :: "hash_env \<Rightarrow> OptionPortfolio \<Rightarrow> operand \<Rightarrow> error + OptionPortfolio" where
  "OptionPortfolio_add env self other =
     (case other of
        AnOption opt \<Rightarrow>
          Inr \<lparr>options = dict_set env (options self) opt (dict_get env (options self) opt 0 + 1)\<rparr>
      | APortfolio p \<Rightarrow>
          Inr \<lparr>options =
                 fold (\<lambda>opt d. dict_set env d opt
                          (dict_get env (options self) opt 0 + dict_get env (options p) opt 0))
                   (union_keys env (options self) (options p)) (options self)\<rparr>
      | Other \<Rightarrow> Inl ValueError)"

definition OptionPortfolio_sub :: "hash_env \<Rightarrow> OptionPortfolio \<Rightarrow> operand \<Rightarrow> error + OptionPortfolio" where
  "OptionPortfolio_sub env self other =
     (case other of
        AnOption opt \<Rightarrow>
          Inr \<lparr>options = dict_set env (options self) opt (dict_get env (options self) opt 0 - 1)\<rparr>
      | APortfolio p \<Rightarrow>
          Inr \<lparr>options =
                 fold (\<lambda>opt d. dict_set env d opt
                          (dict_get env (options self) opt 0 - dict_get env (options p) opt 0))
                   (union_keys env (options self) (options p)) (options self)\<rparr>
      | Other \<Rightarrow> Inl ValueError)"

text \<open>\<open>OptionPortfolio.value\<close>: the sum, from 0, of \<open>opt.value(spot_price) * cnt\<close> over the items.\<close>

fun sum_values :: "dict \<Rightarrow> rat \<Rightarrow> rat \<Rightarrow> error + rat" where
  "sum_values [] spot_price acc = Inr acc"
| "sum_values ((opt, cnt) # d) spot_price acc =
     (case Option_value opt spot_price of
        Inl e \<Rightarrow> Inl e
      | Inr v \<Rightarrow> sum_values d spot_price (acc + v * of_int cnt))"

definition OptionPortfolio_value :: "OptionPortfolio \<Rightarrow> rat \<Rightarrow> error + rat" where
  "OptionPortfolio_value self spot_price = sum_values (options self) spot_price 0"

subsection \<open>The Option's operators\<close>

definition Option_mul :: "hash_env \<Rightarrow> Option \<Rightarrow> int \<Rightarrow> OptionPortfolio" where
  "Option_mul env self n = OptionPortfolio_init env [(self, n)]"

definition Option_neg :: "hash_env \<Rightarrow> Option \<Rightarrow> OptionPortfolio" where
  "Option_neg env self = OptionPortfolio_init env [(self, - 1)]"

text \<open>
  \<open>Option.__add__\<close> and \<open>Option.__sub__\<close> have no \<open>else\<close> branch: for an operand that
  is neither an Option nor a portfolio they return \<open>None\<close>.
\<close>

definition Option_add :: "hash_env \<Rightarrow> Option \<Rightarrow> operand \<Rightarrow> error + OptionPortfolio option" where
  "Option_add env self other =
     (case other of
        AnOption opt \<Rightarrow> Inr (Some (OptionPortfolio_init env [(self, 1), (opt, 1)]))
      | APortfolio p \<Rightarrow> map_sum id Some (OptionPortfolio_add env p (AnOption self))
      | Other \<Rightarrow> Inr None)"

definition Option_sub :: "hash_env \<Rightarrow> Option \<Rightarrow> operand \<Rightarrow> error + OptionPortfolio option" where
  "Option_sub env self other =
     (case other of
        AnOption opt \<Rightarrow> Inr (Some (OptionPortfolio_init env [(self, 1), (opt, - 1)]))
      | APortfolio p \<Rightarrow>
          map_sum id (\<lambda>r. Some (OptionPortfolio_neg r)) (OptionPortfolio_sub env p (AnOption self))
      | Other \<Rightarrow> Inr None)"

section \<open>Pricing engine (pyoption/pricing/gbs.py)\<close>

text \<open>
  The pricing layer works on Python floats, modelled by the reals: the formulas are
  taken exactly, without rounding, overflow or NaN. The exceptions Python raises on the
  way are branches of the model, in the order the statements run: \<open>math.sqrt\<close> of a
  negative number and \<open>math.log\<close> of a non-positive number raise \<open>ValueError\<close>, a
  division by zero raises \<open>ZeroDivisionError\<close>.
\<close>

subsection \<open>The standard normal distribution (scipy.stats.norm)\<close>

text \<open>
  SciPy is a library outside the repository. \<open>norm.pdf\<close> and \<open>norm.cdf\<close> are
  modelled by the functions they compute: the density \<open>exp (- x\<^sup>2 / 2) / sqrt (2 pi)\<close> and
  its integral from minus infinity, written as one half plus the power series of the
  integral from 0 to \<open>x\<close>.
\<close>

definition norm_pdf :: "real \<Rightarrow> real" where
  "norm_pdf x = exp (- (x * x) / 2) / sqrt (2 * pi)"

definition norm_cdf :: "real \<Rightarrow> real" where
  "norm_cdf x =
     1 / 2 + (\<Sum>n. (- 1) ^ n * x ^ (2 * n + 1) / (2 ^ n * fact n * real (2 * n + 1))) / sqrt (2 * pi)"

subsection \<open>The generalized formula and its specializations\<close>

text \<open>
  The parameter \<open>option_type\<close> of the pricing functions is a Python string, written
  \<open>otype\<close> here. The result of a pricing call: \<open>Inl\<close> an exception, \<open>Inr None\<close> when
  the function ends without a \<open>return\<close> (Python's \<open>None\<close>), \<open>Inr (Some d)\<close> when it
  returns the dict \<open>d\<close>, kept as the list of its items in the order the dict literal
  writes them.
\<close>

type_synonym greeks = "(string \<times> real) list"

definition generalized_black_scholes ::
  "string \<Rightarrow> real \<Rightarrow> real \<Rightarrow> real \<Rightarrow> real \<Rightarrow> real \<Rightarrow> real \<Rightarrow> error + greeks option" where
  "generalized_black_scholes otype fs x t r b v =
     (if t < 0 then Inl ValueError
      else
        let t_sqrt = sqrt t in
        if x = 0 then Inl ZeroDivisionError
        else if fs / x \<le> 0 then Inl ValueError
        else if v * t_sqrt = 0 then Inl ZeroDivisionError
        else
          let d1 = (ln (fs / x) + (b + (v * v) / 2) * t) / (v * t_sqrt);
              d2 = d1 - v * t_sqrt
          in
          if otype = ''call'' then
            let pdf_d1 = norm_pdf d1;
                cdf_d1 = norm_cdf d1;
                cdf_d2 = norm_cdf d2;
                value = fs * exp ((b - r) * t) * cdf_d1 - x * exp (- r * t) * cdf_d2;
                delta = exp ((b - r) * t) * cdf_d1;
                gamma = exp ((b - r) * t) * pdf_d1 / (fs * v * t_sqrt);
                theta = - (fs * v * exp ((b - r) * t) * pdf_d1) / (2 * t_sqrt)
                        - (b - r) * fs * exp ((b - r) * t) * cdf_d1
                        - r * x * exp (- r * t) * cdf_d2;
                vega = exp ((b - r) * t) * fs * t_sqrt * pdf_d1;
                rho = x * t * exp (- r * t) * cdf_d2
            in Inr None
          else
            let pdf_d1 = norm_pdf d1;
                cdf_d1 = norm_cdf (- d1);
                cdf_d2 = norm_cdf (- d2);
                value = x * exp (- r * t) * cdf_d2 - (fs * exp ((b - r) * t) * cdf_d1);
                delta = - exp ((b - r) * t) * cdf_d1;
                gamma = exp ((b - r) * t) * pdf_d1 / (fs * v * t_sqrt);
                theta = - (fs * v * exp ((b - r) * t) * pdf_d1) / (2 * t_sqrt)
                        + (b - r) * fs * exp ((b - r) * t) * cdf_d1
                        + r * x * exp (- r * t) * cdf_d2;
                vega = exp ((b - r) * t) * fs * t_sqrt * pdf_d1;
                rho = - x * t * exp (- r * t) * cdf_d2
            in Inr (Some [(''value'', value), (''delta'', delta), (''gamma'', gamma),
                          (''theta'', theta), (''vega'', vega / 100), (''rho'', rho / 100)]))"

definition black_scholes ::
  "string \<Rightarrow> real \<Rightarrow> real \<Rightarrow> real \<Rightarrow> real \<Rightarrow> real \<Rightarrow> error + greeks option" where
  "black_scholes otype fs x t r v = generalized_black_scholes otype fs x t r r v"

definition black_scholes_merton ::
  "string \<Rightarrow> real \<Rightarrow> real \<Rightarrow> real \<Rightarrow> real \<Rightarrow> real \<Rightarrow> real \<Rightarrow> error + greeks option" where
  "black_scholes_merton otype fs x t r q v =
     generalized_black_scholes otype fs x t r (r - q) v"

definition black_scholes_commodity ::
  "string \<Rightarrow> real \<Rightarrow> real \<Rightarrow> real \<Rightarrow> real \<Rightarrow> real \<Rightarrow> error + greeks option" where
  "black_scholes_commodity otype fs x t r v =
     generalized_black_scholes otype fs x t r 0 v"

definition garman_kohlhagen ::
  "string \<Rightarrow> real \<Rightarrow> real \<Rightarrow> real \<Rightarrow> real \<Rightarrow> real \<Rightarrow> real \<Rightarrow> error + greeks option" where
  "garman_kohlhagen otype fs x t r rf v =
     generalized_black_scholes otype fs x t r (r - rf) v"

subsection \<open>The implied-volatility solver\<close>

text \<open>
  The subscript \<open>result['value']\<close>: on \<open>None\<close> it raises \<open>TypeError\<close>, on a dict
  without the key \<open>KeyError\<close>; an exception of the pricing call itself goes through.
\<close>

definition subscript :: "error + greeks option \<Rightarrow> string \<Rightarrow> error + real" where
  "subscript res key =
     (case res of
        Inl e \<Rightarrow> Inl e
      | Inr None \<Rightarrow> Inl TypeError
      | Inr (Some d) \<Rightarrow> (case map_of d key of None \<Rightarrow> Inl KeyError | Some y \<Rightarrow> Inr y))"

text \<open>
  \<open>scipy.optimize.bisect\<close> is a library routine outside the repository. The model
  follows its implementation: the wrapper refuses a tolerance \<open>xtol <= 0\<close> and a
  negative \<open>maxiter\<close>; the routine evaluates \<open>f\<close> at both ends, returns an end where
  \<open>f\<close> is zero, raises \<open>ValueError\<close> when \<open>f(a)\<close> and \<open>f(b)\<close> have the same sign, and
  otherwise halves the bracket at most \<open>maxiter\<close> times, raising \<open>RuntimeError\<close> when
  the iterations run out. \<open>rtol\<close> is the routine's default, four machine epsilons.
\<close>

definition bisect_rtol :: real where
  "bisect_rtol = 4 / 2 ^ 52"

fun bisect_loop ::
  "(real \<Rightarrow> error + real) \<Rightarrow> real \<Rightarrow> real \<Rightarrow> real \<Rightarrow> real \<Rightarrow> nat \<Rightarrow> error + real" where
  "bisect_loop f xa fa dm xtol 0 = Inl RuntimeError"
| "bisect_loop f xa fa dm xtol (Suc i) =
     (let dm' = dm * (1 / 2);
          xm = xa + dm'
      in case f xm of
           Inl e \<Rightarrow> Inl e
         | Inr fm \<Rightarrow>
             if fm = 0 \<or> \<bar>dm'\<bar> < xtol + bisect_rtol * \<bar>xm\<bar> then Inr xm
             else bisect_loop f (if fm * fa \<ge> 0 then xm else xa) fa dm' xtol i)"

definition bisect ::
  "(real \<Rightarrow> error + real) \<Rightarrow> real \<Rightarrow> real \<Rightarrow> real \<Rightarrow> int \<Rightarrow> error + real" where
  "bisect f a b xtol maxiter =
     (if xtol \<le> 0 then Inl ValueError
      else if maxiter < 0 then Inl ValueError
      else
        case f a of
          Inl e \<Rightarrow> Inl e
        | Inr fa \<Rightarrow>
            (case f b of
               Inl e \<Rightarrow> Inl e
             | Inr fb \<Rightarrow>
                 if fa = 0 then Inr a
                 else if fb = 0 then Inr b
                 else if fa * fb > 0 then Inl ValueError
                 else bisect_loop f a fa (b - a) xtol (nat maxiter)))"

text \<open>The nested function \<open>obj\<close> of \<open>_implied_volatility\<close>, closed over the call's arguments.\<close>

definition obj ::
  "string \<Rightarrow> real \<Rightarrow> real \<Rightarrow> real \<Rightarrow> real \<Rightarrow> real \<Rightarrow> real \<Rightarrow> real \<Rightarrow> error + real" where
  "obj otype p fs x t r b v =
     (case subscript (generalized_black_scholes otype fs x t r b v) ''value'' of
        Inl e \<Rightarrow> Inl e
      | Inr p_hat \<Rightarrow> Inr \<bar>p_hat - p\<bar>)"

definition implied_volatility ::
  "string \<Rightarrow> int \<Rightarrow> real \<Rightarrow> real \<Rightarrow> real \<Rightarrow> real \<Rightarrow> real \<Rightarrow> real \<Rightarrow> real \<Rightarrow> real \<Rightarrow> real
   \<Rightarrow> error + real" where
  "implied_volatility otype max_iter min_volatility max_volatility xtol p fs x t r b =
     bisect (obj otype p fs x t r b) min_volatility max_volatility xtol max_iter"

text \<open>
  The two wrappers take the four search parameters and pass the literals
  \<open>500, 0.01, 1.0, 0.001\<close> on.
\<close>

definition implied_volatility_stock ::
  "string \<Rightarrow> int \<Rightarrow> real \<Rightarrow> real \<Rightarrow> real \<Rightarrow> real \<Rightarrow> real \<Rightarrow> real \<Rightarrow> real \<Rightarrow> real \<Rightarrow> real
   \<Rightarrow> error + real" where
  "implied_volatility_stock otype max_iter min_volatility max_volatility xtol p fs x t r q =
     (let b = r - q
      in implied_volatility otype 500 (1 / 100) 1 (1 / 1000) p fs x t r b)"

definition implied_volatility_commodity ::
  "string \<Rightarrow> int \<Rightarrow> real \<Rightarrow> real \<Rightarrow> real \<Rightarrow> real \<Rightarrow> real \<Rightarrow> real \<Rightarrow> real \<Rightarrow> real
   \<Rightarrow> error + real" where
  "implied_volatility_commodity otype max_iter min_volatility max_volatility xtol p fs x t r =
     implied_volatility otype 500 (1 / 100) 1 (1 / 1000) p fs x t r 0"

text \<open>
  For stating the inputs of the solver: the number under \<open>'value'\<close> in the result of a
  pricing call (0 when the call returns no dict).
\<close>

definition price_of :: "error + greeks option \<Rightarrow> real" where
  "price_of res = (case subscript res ''value'' of Inl e \<Rightarrow> 0 | Inr y \<Rightarrow> y)"

section \<open>Payoff of a single option\<close>

text \<open>
  C4. For every spot \<open>s\<close> and strike \<open>k\<close>, \<open>CallOption(k).value(s)\<close> is \<open>max(s - k, 0)\<close>
  and \<open>PutOption(k).value(s)\<close> is \<open>max(k - s, 0)\<close>, whatever the time to expiration and
  the exercise style.
\<close>

theorem Option_value_payoff:
  "Option_value (CallOption k tte et) s = Inr (max (s - k) 0) \<and>
   Option_value (PutOption k tte et) s = Inr (max (k - s) 0)"
  by (simp add: Option_value_def CallOption_def PutOption_def)

section \<open>Equality of Options and portfolio keys\<close>

lemma Option_eq_refl: "Option_eq env a a"
  by (simp add: Option_eq_def)

lemma Option_eq_triple:
  "Option_eq env
     \<lparr>option_type = ot, exercise_price = k, exercise_type = et, time_to_expiration = t1\<rparr>
     \<lparr>option_type = ot, exercise_price = k, exercise_type = et, time_to_expiration = t2\<rparr>"
  by (simp add: Option_eq_def Option_hash_def)

lemma dict_get_matching: "Option_eq env a b \<Longrightarrow> dict_get env d a dflt = dict_get env d b dflt"
  by (induction d) (auto simp: Option_eq_def)

lemma dict_contains_matching:
  "Option_eq env a b \<Longrightarrow> dict_contains env d a = dict_contains env d b"
  by (induction d) (auto simp: Option_eq_def)

lemma dict_get_set_matching:
  "Option_eq env a b \<Longrightarrow> dict_get env (dict_set env d a v) b dflt = v"
  by (induction d) (auto simp: Option_eq_def)

text \<open>
  The dict comprehension of \<open>OptionPortfolio.__init__\<close> keeps one entry for two
  matching keys: the first key with the last quantity.
\<close>

lemma OptionPortfolio_init_matching:
  "Option_eq env a b \<Longrightarrow> OptionPortfolio_init env [(a, m), (b, n)] = \<lparr>options = [(a, n)]\<rparr>"
  by (simp add: OptionPortfolio_init_def)

lemma OptionType_name_inj: "OptionType_name c = OptionType_name c' \<longleftrightarrow> c = c'"
  by (cases c; cases c') simp_all

lemma ExerciseType_name_inj: "ExerciseType_name e = ExerciseType_name e' \<longleftrightarrow> e = e'"
  by (cases e; cases e') simp_all

lemma hash_option_type_inj:
  assumes "inj (hash_str env)" and "hash_None env \<notin> range (hash_str env)"
  shows "hash_option_type env ot = hash_option_type env ot' \<longleftrightarrow> ot = ot'"
proof -
  have ne: "hash_str env s \<noteq> hash_None env" for s
    using assms(2) by (metis rangeI)
  show ?thesis
    using assms(1) ne ne [symmetric]
    by (cases ot; cases ot') (simp_all add: hash_option_type_def inj_eq OptionType_name_inj)
qed

text \<open>
  Where equality comes from. Two Options that agree on
  \<open>(option_type, exercise_price, exercise_type)\<close> are equal and have the same hash,
  whatever their times to expiration, and they match the same keys of a portfolio's
  dict. In the other direction \<open>__eq__\<close> has only the hashes: even with a string hash
  and a tuple combiner free of collisions, equal Options agree on the hash of the
  strike, not on the strike.
\<close>

lemma Option_eq_same_triple:
  "Option_eq env
     \<lparr>option_type = ot, exercise_price = k, exercise_type = et, time_to_expiration = t1\<rparr>
     \<lparr>option_type = ot, exercise_price = k, exercise_type = et, time_to_expiration = t2\<rparr> \<and>
   Option_hash env
     \<lparr>option_type = ot, exercise_price = k, exercise_type = et, time_to_expiration = t1\<rparr> =
   Option_hash env
     \<lparr>option_type = ot, exercise_price = k, exercise_type = et, time_to_expiration = t2\<rparr> \<and>
   dict_contains env d
     \<lparr>option_type = ot, exercise_price = k, exercise_type = et, time_to_expiration = t1\<rparr> =
   dict_contains env d
     \<lparr>option_type = ot, exercise_price = k, exercise_type = et, time_to_expiration = t2\<rparr> \<and>
   dict_get env d
     \<lparr>option_type = ot, exercise_price = k, exercise_type = et, time_to_expiration = t1\<rparr> dflt =
   dict_get env d
     \<lparr>option_type = ot, exercise_price = k, exercise_type = et, time_to_expiration = t2\<rparr> dflt \<and>
   dict_get env
     (dict_set env d
        \<lparr>option_type = ot, exercise_price = k, exercise_type = et, time_to_expiration = t1\<rparr> v)
     \<lparr>option_type = ot, exercise_price = k, exercise_type = et, time_to_expiration = t2\<rparr> dflt = v"
  using Option_eq_triple [of env ot k et t1 t2]
  by (simp add: dict_get_matching dict_contains_matching dict_get_set_matching)
     (simp add: Option_eq_def)

lemma Option_eq_injective_hashes:
  assumes "inj (hash_tuple env)" and "inj (hash_str env)"
    and "hash_None env \<notin> range (hash_str env)"
  shows "Option_eq env a b \<longleftrightarrow>
     option_type a = option_type b \<and>
     hash_number (exercise_price a) = hash_number (exercise_price b) \<and>
     exercise_type a = exercise_type b"
  using assms
  by (simp add: Option_eq_def Option_hash_def inj_eq hash_option_type_inj ExerciseType_name_inj)

text \<open>
  C9. Equality is claimed to hold only for Options that agree on
  \<open>(option_type, exercise_price, exercise_type)\<close>. \<open>__eq__\<close> compares the hashes of
  the triples, and the numeric hash reduces modulo \<open>2^61 - 1\<close>: \<open>CallOption(1)\<close> and
  \<open>CallOption(2**61)\<close> are equal under every string hash and every tuple combiner,
  while their strikes differ.
\<close>

theorem Option_eq_hash_collision:
  "\<forall>env. Option_eq env (CallOption 1 None EUROPEAN) (CallOption (2 ^ 61) None EUROPEAN) \<and>
         exercise_price (CallOption 1 None EUROPEAN) \<noteq>
         exercise_price (CallOption (2 ^ 61) None EUROPEAN)"
  by (simp add: Option_eq_def Option_hash_def CallOption_def hash_number_def hash_modulus_def)

text \<open>
  C2. For \<open>a = b = CallOption(100)\<close>, \<open>a + b\<close> is the portfolio with the one leg at
  quantity 1, not 2, and \<open>a - b\<close> the portfolio with the leg at quantity -1, not 0, whose
  value at spot 120 is -20: \<open>OptionPortfolio.__init__\<close> overwrites the first quantity
  with the second. The portfolio's own \<open>__add__\<close> does merge: \<open>(a * 1) + a\<close> has the
  leg at quantity 2.
\<close>

theorem equal_options_do_not_merge:
  "Option_add env (CallOption 100 None EUROPEAN) (AnOption (CallOption 100 None EUROPEAN)) =
     Inr (Some \<lparr>options = [(CallOption 100 None EUROPEAN, 1)]\<rparr>) \<and>
   Option_sub env (CallOption 100 None EUROPEAN) (AnOption (CallOption 100 None EUROPEAN)) =
     Inr (Some \<lparr>options = [(CallOption 100 None EUROPEAN, - 1)]\<rparr>) \<and>
   OptionPortfolio_value \<lparr>options = [(CallOption 100 None EUROPEAN, - 1)]\<rparr> 120 = Inr (- 20) \<and>
   OptionPortfolio_add env (Option_mul env (CallOption 100 None EUROPEAN) 1)
       (AnOption (CallOption 100 None EUROPEAN)) =
     Inr \<lparr>options = [(CallOption 100 None EUROPEAN, 2)]\<rparr>"
  by (simp add: Option_add_def Option_sub_def OptionPortfolio_init_matching Option_eq_refl
      OptionPortfolio_value_def Option_value_def CallOption_def OptionPortfolio_add_def
      Option_mul_def OptionPortfolio_init_def)

section \<open>The generalized formula\<close>

lemma generalized_black_scholes_call:
  "generalized_black_scholes ''call'' fs x t r b v =
     (if t < 0 then Inl ValueError
      else if x = 0 then Inl ZeroDivisionError
      else if fs / x \<le> 0 then Inl ValueError
      else if v * sqrt t = 0 then Inl ZeroDivisionError
      else Inr None)"
  by (simp add: generalized_black_scholes_def Let_def)

lemma in_domain:
  "0 < (t::real) \<Longrightarrow> 0 < (v::real) \<Longrightarrow> 0 < (fs::real) \<Longrightarrow> 0 < (x::real) \<Longrightarrow>
   \<not> t < 0 \<and> x \<noteq> 0 \<and> \<not> fs / x \<le> 0 \<and> v * sqrt t \<noteq> 0"
  by (auto simp: not_le)

text \<open>
  C1. For \<open>option_type = 'call'\<close> the generalized formula never returns a dict: on
  every input of the domain (\<open>t, v, fs, x > 0\<close>) it ends without a \<open>return\<close> and the
  caller gets \<open>None\<close>, and so do the four specializations. For any other
  \<open>option_type\<close> (the put branch) it returns the dict with the keys value, delta, gamma,
  theta, vega, rho, where vega and rho are the computed sensitivities divided by 100.
\<close>

theorem call_branch_returns_None:
  "(\<forall>g. generalized_black_scholes ''call'' fs x t r b v \<noteq> Inr (Some g)) \<and>
   (0 < t \<and> 0 < v \<and> 0 < fs \<and> 0 < x \<longrightarrow>
      generalized_black_scholes ''call'' fs x t r b v = Inr None \<and>
      black_scholes ''call'' fs x t r v = Inr None \<and>
      black_scholes_merton ''call'' fs x t r q v = Inr None \<and>
      black_scholes_commodity ''call'' fs x t r v = Inr None \<and>
      garman_kohlhagen ''call'' fs x t r rf v = Inr None \<and>
      (otype \<noteq> ''call'' \<longrightarrow>
         (\<exists>val delta gamma theta vega rho.
            generalized_black_scholes otype fs x t r b v =
              Inr (Some [(''value'', val), (''delta'', delta), (''gamma'', gamma),
                         (''theta'', theta), (''vega'', vega / 100), (''rho'', rho / 100)]) \<and>
            vega = exp ((b - r) * t) * fs * sqrt t *
                   norm_pdf ((ln (fs / x) + (b + (v * v) / 2) * t) / (v * sqrt t)) \<and>
            rho = - x * t * exp (- r * t) *
                  norm_cdf (- ((ln (fs / x) + (b + (v * v) / 2) * t) / (v * sqrt t) - v * sqrt t)))))"
proof (intro conjI allI impI)
  fix g show "generalized_black_scholes ''call'' fs x t r b v \<noteq> Inr (Some g)"
    by (simp add: generalized_black_scholes_call)
next
  assume "0 < t \<and> 0 < v \<and> 0 < fs \<and> 0 < x"
  then have d: "\<not> t < 0 \<and> x \<noteq> 0 \<and> \<not> fs / x \<le> 0 \<and> v * sqrt t \<noteq> 0"
    using in_domain by blast
  then show "generalized_black_scholes ''call'' fs x t r b v = Inr None"
    "black_scholes ''call'' fs x t r v = Inr None"
    "black_scholes_merton ''call'' fs x t r q v = Inr None"
    "black_scholes_commodity ''call'' fs x t r v = Inr None"
    "garman_kohlhagen ''call'' fs x t r rf v = Inr None"
    by (simp_all add: generalized_black_scholes_call black_scholes_def black_scholes_merton_def
        black_scholes_commodity_def garman_kohlhagen_def)
  assume "otype \<noteq> ''call''"
  with d show "\<exists>val delta gamma theta vega rho.
            generalized_black_scholes otype fs x t r b v =
              Inr (Some [(''value'', val), (''delta'', delta), (''gamma'', gamma),
                         (''theta'', theta), (''vega'', vega / 100), (''rho'', rho / 100)]) \<and>
            vega = exp ((b - r) * t) * fs * sqrt t *
                   norm_pdf ((ln (fs / x) + (b + (v * v) / 2) * t) / (v * sqrt t)) \<and>
            rho = - x * t * exp (- r * t) *
                  norm_cdf (- ((ln (fs / x) + (b + (v * v) / 2) * t) / (v * sqrt t) - v * sqrt t))"
    by (simp add: generalized_black_scholes_def Let_def)
qed

text \<open>
  The theorem at \<open>fs = x = 100, t = 1, r = b = 0.05, v = 0.2\<close>: the call prices to
  \<open>None\<close>, the put to a dict.
\<close>

theorem call_branch_returns_None_witness:
  "(0::real) < 1 \<and> (0::real) < 2 / 10 \<and> (0::real) < 100 \<and>
   generalized_black_scholes ''call'' 100 100 1 (5 / 100) (5 / 100) (2 / 10) = Inr None \<and>
   black_scholes ''call'' 100 100 1 (5 / 100) (2 / 10) = Inr None \<and>
   ''put'' \<noteq> ''call'' \<and>
   (\<exists>g. generalized_black_scholes ''put'' 100 100 1 (5 / 100) (5 / 100) (2 / 10) = Inr (Some g))"
  using call_branch_returns_None [of 100 100 1 "5 / 100" "5 / 100" "2 / 10" 0 0 "''put''"]
  by auto

text \<open>
  C5. Put-call parity compares \<open>price(call)['value']\<close> with \<open>price(put)['value']\<close>.
  At \<open>fs = x = 100, t = 1, r = b = 0.05, v = 0.2\<close> the put has a value, but the call
  returns \<open>None\<close> and its subscript raises \<open>TypeError\<close>: the difference of the two
  returned values does not exist.
\<close>

theorem put_call_parity_call_value_missing:
  "generalized_black_scholes ''call'' 100 100 1 (5 / 100) (5 / 100) (2 / 10) = Inr None \<and>
   subscript (generalized_black_scholes ''call'' 100 100 1 (5 / 100) (5 / 100) (2 / 10)) ''value''
     = Inl TypeError \<and>
   (\<exists>y. subscript (generalized_black_scholes ''put'' 100 100 1 (5 / 100) (5 / 100) (2 / 10)) ''value''
     = Inr y)"
  by (simp add: generalized_black_scholes_def Let_def subscript_def)

text \<open>
  C6. Each specialization is the generalized formula with the cost of carry fixed:
  \<open>b = r\<close> for \<open>black_scholes\<close>, \<open>b = r - q\<close> for \<open>black_scholes_merton\<close>, \<open>b = 0\<close> for
  \<open>black_scholes_commodity\<close> and \<open>b = r - rf\<close> for \<open>garman_kohlhagen\<close>, on every input.
\<close>

theorem specializations_fix_cost_of_carry:
  "black_scholes otype fs x t r v = generalized_black_scholes otype fs x t r r v \<and>
   black_scholes_merton otype fs x t r q v = generalized_black_scholes otype fs x t r (r - q) v \<and>
   black_scholes_commodity otype fs x t r v = generalized_black_scholes otype fs x t r 0 v \<and>
   garman_kohlhagen otype fs x t r rf v = generalized_black_scholes otype fs x t r (r - rf) v"
  by (simp add: black_scholes_def black_scholes_merton_def black_scholes_commodity_def
      garman_kohlhagen_def)

text \<open>
  C8, as stated, fails: with a negative volatility (\<open>v = -0.2\<close>), and with a negative
  underlying price and a negative strike (\<open>fs = x = -100\<close>), the pricing of a put
  raises no exception (the result is not \<open>Inl\<close>) and returns a dict (not \<open>None\<close>).
\<close>

theorem negative_volatility_no_error:
  "\<not> isl (generalized_black_scholes ''put'' 100 100 1 (5 / 100) (5 / 100) (- (2 / 10))) \<and>
   projr (generalized_black_scholes ''put'' 100 100 1 (5 / 100) (5 / 100) (- (2 / 10))) \<noteq> None \<and>
   \<not> isl (generalized_black_scholes ''put'' (- 100) (- 100) 1 (5 / 100) (5 / 100) (2 / 10)) \<and>
   projr (generalized_black_scholes ''put'' (- 100) (- 100) 1 (5 / 100) (5 / 100) (2 / 10)) \<noteq> None"
  by (simp add: generalized_black_scholes_def Let_def)

text \<open>
  C8, amended. The pricing formula validates nothing itself, but on every input with
  \<open>t <= 0\<close>, \<open>v = 0\<close>, \<open>x = 0\<close> or \<open>fs / x <= 0\<close> one of its own operations raises:
  \<open>math.sqrt\<close> or \<open>math.log\<close> a \<open>ValueError\<close>, a division a \<open>ZeroDivisionError\<close>.
\<close>

theorem pricing_error_out_of_domain:
  "t \<le> 0 \<or> v = 0 \<or> x = 0 \<or> fs / x \<le> 0 \<Longrightarrow>
   generalized_black_scholes otype fs x t r b v = Inl ValueError \<or>
   generalized_black_scholes otype fs x t r b v = Inl ZeroDivisionError"
  by (auto simp add: generalized_black_scholes_def Let_def)

text \<open>
  The theorem at one input for each way out of the domain: \<open>t = 0\<close>, \<open>t = -1\<close>,
  \<open>v = 0\<close>, \<open>x = 0\<close>, \<open>fs = -100\<close> and \<open>fs = 0\<close>, the others as in
  \<open>fs = x = 100, t = 1, r = b = 0.05, v = 0.2\<close>.
\<close>

theorem pricing_error_out_of_domain_witness:
  "(0::real) \<le> 0 \<and>
   generalized_black_scholes ''put'' 100 100 0 (5 / 100) (5 / 100) (2 / 10) = Inl ZeroDivisionError \<and>
   generalized_black_scholes ''put'' 100 100 (- 1) (5 / 100) (5 / 100) (2 / 10) = Inl ValueError \<and>
   generalized_black_scholes ''put'' 100 100 1 (5 / 100) (5 / 100) 0 = Inl ZeroDivisionError \<and>
   generalized_black_scholes ''put'' 100 0 1 (5 / 100) (5 / 100) (2 / 10) = Inl ZeroDivisionError \<and>
   generalized_black_scholes ''put'' (- 100) 100 1 (5 / 100) (5 / 100) (2 / 10) = Inl ValueError \<and>
   generalized_black_scholes ''call'' 0 100 1 (5 / 100) (5 / 100) (2 / 10) = Inl ValueError"
  using pricing_error_out_of_domain [of 0 "2 / 10" 100 100 "''put''" "5 / 100" "5 / 100"]
    pricing_error_out_of_domain [of "- 1" "2 / 10" 100 100 "''put''" "5 / 100" "5 / 100"]
    pricing_error_out_of_domain [of 1 0 100 100 "''put''" "5 / 100" "5 / 100"]
    pricing_error_out_of_domain [of 1 "2 / 10" 0 100 "''put''" "5 / 100" "5 / 100"]
    pricing_error_out_of_domain [of 1 "2 / 10" 100 "- 100" "''put''" "5 / 100" "5 / 100"]
    pricing_error_out_of_domain [of 1 "2 / 10" 100 0 "''call''" "5 / 100" "5 / 100"]
  by (simp add: generalized_black_scholes_def Let_def)

section \<open>The implied-volatility solver\<close>

lemma obj_nonneg: "obj otype p fs x t r b v = Inr y \<Longrightarrow> 0 \<le> y"
  by (auto simp: obj_def split: sum.splits)

lemma obj_call: "\<exists>e. obj ''call'' p fs x t r b v = Inl e"
  by (simp add: obj_def subscript_def generalized_black_scholes_def Let_def)

lemma obj_put_value:
  "0 \<le> t \<Longrightarrow> x \<noteq> 0 \<Longrightarrow> 0 < fs / x \<Longrightarrow> v * sqrt t \<noteq> 0 \<Longrightarrow> otype \<noteq> ''call'' \<Longrightarrow>
   obj otype p fs x t r b v = Inr \<bar>price_of (generalized_black_scholes otype fs x t r b v) - p\<bar>"
  by (simp add: obj_def price_of_def subscript_def generalized_black_scholes_def Let_def)

text \<open>
  On an objective that is never negative, the sign test of \<open>bisect\<close> lets only two
  calls through: those where the objective is zero at an end of the bracket.
\<close>

lemma bisect_nonneg_objective:
  assumes nonneg: "\<And>v y. f v = Inr y \<Longrightarrow> 0 \<le> y"
    and ret: "bisect f a b xtol maxiter = Inr v"
  shows "(v = a \<or> v = b) \<and> f v = Inr 0"
proof -
  obtain fa fb where fa: "f a = Inr fa" and fb: "f b = Inr fb"
    using ret by (auto simp: bisect_def split: if_splits sum.splits)
  have "0 \<le> fa" "0 \<le> fb" using nonneg fa fb by auto
  show ?thesis
  proof (cases "fa = 0 \<or> fb = 0")
    case True
    then show ?thesis using ret fa fb by (auto simp: bisect_def split: if_splits)
  next
    case False
    then have "0 < fa * fb" using \<open>0 \<le> fa\<close> \<open>0 \<le> fb\<close> by (simp add: zero_less_mult_iff)
    then show ?thesis using ret fa fb False by (auto simp: bisect_def split: if_splits)
  qed
qed

lemma bisect_same_sign:
  assumes nonneg: "\<And>v y. f v = Inr y \<Longrightarrow> 0 \<le> y"
    and "f a \<noteq> Inr 0" "f b \<noteq> Inr 0"
  shows "\<exists>e. bisect f a b xtol maxiter = Inl e"
proof (cases "bisect f a b xtol maxiter")
  case (Inl e) then show ?thesis by blast
next
  case (Inr v)
  have "(v = a \<or> v = b) \<and> f v = Inr 0"
    using nonneg Inr by (rule bisect_nonneg_objective)
  with assms(2,3) show ?thesis by auto
qed

lemma implied_volatility_returns_endpoint:
  "implied_volatility otype max_iter lo hi xtol p fs x t r b = Inr v \<Longrightarrow>
   (v = lo \<or> v = hi) \<and> obj otype p fs x t r b v = Inr 0"
  unfolding implied_volatility_def
  by (rule bisect_nonneg_objective[where f = "obj otype p fs x t r b"]) (auto dest: obj_nonneg)

lemma implied_volatility_call:
  "\<exists>e. implied_volatility ''call'' max_iter lo hi xtol p fs x t r b = Inl e"
  using obj_call[of p fs x t r b lo]
  by (auto simp add: implied_volatility_def bisect_def)

text \<open>
  C10. The solver's objective is the absolute pricing error, never negative, and
  \<open>bisect\<close> needs values of opposite sign at the two ends of the bracket. So whenever
  the objective is not zero at \<open>min_volatility\<close> and not zero at \<open>max_volatility\<close>,
  \<open>_implied_volatility\<close> raises; and when it returns, it returns one of the two ends of
  the bracket, where the objective is zero, never a volatility inside.
\<close>

theorem implied_volatility_unsigned_objective:
  "(\<forall>y. obj otype p fs x t r b v = Inr y \<longrightarrow> 0 \<le> y) \<and>
   (obj otype p fs x t r b lo \<noteq> Inr 0 \<and> obj otype p fs x t r b hi \<noteq> Inr 0 \<longrightarrow>
      (\<exists>e. implied_volatility otype max_iter lo hi xtol p fs x t r b = Inl e)) \<and>
   (implied_volatility otype max_iter lo hi xtol p fs x t r b = Inr w \<longrightarrow>
      (w = lo \<or> w = hi) \<and> obj otype p fs x t r b w = Inr 0)"
proof (intro conjI allI impI)
  fix y assume "obj otype p fs x t r b v = Inr y"
  then show "0 \<le> y" by (rule obj_nonneg)
next
  assume "obj otype p fs x t r b lo \<noteq> Inr 0 \<and> obj otype p fs x t r b hi \<noteq> Inr 0"
  then show "\<exists>e. implied_volatility otype max_iter lo hi xtol p fs x t r b = Inl e"
    unfolding implied_volatility_def
    by (intro bisect_same_sign) (auto dest: obj_nonneg)
next
  assume "implied_volatility otype max_iter lo hi xtol p fs x t r b = Inr w"
  then show "w = lo \<or> w = hi" "obj otype p fs x t r b w = Inr 0"
    using implied_volatility_returns_endpoint by blast+
qed

text \<open>
  The theorem on a put with \<open>fs = x = 100, t = 1, r = b = 0.05\<close> and the default
  bracket: a target price above the model prices at both ends makes the solver raise;
  the model price at \<open>v = 0.01\<close> as target makes it return \<open>0.01\<close>, the lower end.
\<close>

theorem implied_volatility_unsigned_objective_witness:
  "(let p_lo = price_of (generalized_black_scholes ''put'' 100 100 1 (5 / 100) (5 / 100) (1 / 100));
        p_hi = price_of (generalized_black_scholes ''put'' 100 100 1 (5 / 100) (5 / 100) 1);
        p_above = p_lo + 1 + \<bar>p_hi - p_lo\<bar>
    in obj ''put'' p_above 100 100 1 (5 / 100) (5 / 100) (1 / 100) \<noteq> Inr 0 \<and>
       obj ''put'' p_above 100 100 1 (5 / 100) (5 / 100) 1 \<noteq> Inr 0 \<and>
       (\<exists>e. implied_volatility ''put'' 500 (1 / 100) 1 (1 / 1000) p_above 100 100 1 (5 / 100) (5 / 100)
              = Inl e) \<and>
       implied_volatility ''put'' 500 (1 / 100) 1 (1 / 1000) p_lo 100 100 1 (5 / 100) (5 / 100)
         = Inr (1 / 100) \<and>
       obj ''put'' p_lo 100 100 1 (5 / 100) (5 / 100) (1 / 100) = Inr 0)"
proof -
  define p_lo where
    "p_lo = price_of (generalized_black_scholes ''put'' 100 100 1 (5 / 100) (5 / 100) (1 / 100))"
  define p_hi where
    "p_hi = price_of (generalized_black_scholes ''put'' 100 100 1 (5 / 100) (5 / 100) 1)"
  define p_above where "p_above = p_lo + 1 + \<bar>p_hi - p_lo\<bar>"
  have lo: "obj ''put'' p 100 100 1 (5 / 100) (5 / 100) (1 / 100) = Inr \<bar>p_lo - p\<bar>" for p
    unfolding p_lo_def by (rule obj_put_value) simp_all
  have hi: "obj ''put'' p 100 100 1 (5 / 100) (5 / 100) 1 = Inr \<bar>p_hi - p\<bar>" for p
    unfolding p_hi_def by (rule obj_put_value) simp_all
  have n1: "obj ''put'' p_above 100 100 1 (5 / 100) (5 / 100) (1 / 100) \<noteq> Inr 0"
    using lo [of p_above] by (simp add: p_above_def)
  have n2: "obj ''put'' p_above 100 100 1 (5 / 100) (5 / 100) 1 \<noteq> Inr 0"
    using hi [of p_above] by (simp add: p_above_def)
  have ret: "implied_volatility ''put'' 500 (1 / 100) 1 (1 / 1000) p_lo 100 100 1 (5 / 100) (5 / 100)
         = Inr (1 / 100)"
    using lo [of p_lo] hi [of p_lo] by (simp add: implied_volatility_def bisect_def)
  have "\<exists>e. implied_volatility ''put'' 500 (1 / 100) 1 (1 / 1000) p_above 100 100 1 (5 / 100) (5 / 100)
          = Inl e"
    using implied_volatility_unsigned_objective
      [of "''put''" p_above 100 100 1 "5 / 100" "5 / 100" 0 "1 / 100" 1 500 "1 / 1000" 0] n1 n2
    by blast
  moreover have "obj ''put'' p_lo 100 100 1 (5 / 100) (5 / 100) (1 / 100) = Inr 0"
    using implied_volatility_unsigned_objective
      [of "''put''" p_lo 100 100 1 "5 / 100" "5 / 100" 0 "1 / 100" 1 500 "1 / 1000" "1 / 100"] ret
    by blast
  ultimately show ?thesis
    using n1 n2 ret by (simp add: Let_def p_lo_def p_hi_def p_above_def)
qed

text \<open>
  C3. The round trip fails on the default bracket. For a call the solver raises
  whatever the target price (the objective subscripts \<open>None\<close>). For a put with
  \<open>fs = x = 100, t = 1, r = b = 0.05\<close> and the target price computed at \<open>v0 = 0.5\<close>,
  the solver returns no volatility within \<open>xtol = 0.001\<close> of \<open>v0\<close>: it can only
  raise or return an end of the bracket.
\<close>

theorem round_trip_fails:
  "(\<exists>e. implied_volatility ''call'' 500 (1 / 100) 1 (1 / 1000) p 100 100 1 (5 / 100) (5 / 100) = Inl e) \<and>
   \<not> (\<exists>w. implied_volatility ''put'' 500 (1 / 100) 1 (1 / 1000)
             (price_of (generalized_black_scholes ''put'' 100 100 1 (5 / 100) (5 / 100) (1 / 2)))
             100 100 1 (5 / 100) (5 / 100) = Inr w \<and>
           \<bar>w - 1 / 2\<bar> \<le> 1 / 1000)"
proof (intro conjI notI)
  show "\<exists>e. implied_volatility ''call'' 500 (1 / 100) 1 (1 / 1000) p 100 100 1 (5 / 100) (5 / 100) = Inl e"
    by (rule implied_volatility_call)
next
  assume "\<exists>w. implied_volatility ''put'' 500 (1 / 100) 1 (1 / 1000)
             (price_of (generalized_black_scholes ''put'' 100 100 1 (5 / 100) (5 / 100) (1 / 2)))
             100 100 1 (5 / 100) (5 / 100) = Inr w \<and>
           \<bar>w - 1 / 2\<bar> \<le> 1 / 1000"
  then obtain w where ret: "implied_volatility ''put'' 500 (1 / 100) 1 (1 / 1000)
             (price_of (generalized_black_scholes ''put'' 100 100 1 (5 / 100) (5 / 100) (1 / 2)))
             100 100 1 (5 / 100) (5 / 100) = Inr w" and near: "\<bar>w - 1 / 2\<bar> \<le> 1 / 1000"
    by blast
  from implied_volatility_returns_endpoint [OF ret] have "w = 1 / 100 \<or> w = 1" by blast
  with near show False by auto
qed

text \<open>
  C7. The stock and commodity wrappers run the search with \<open>max_iter = 500\<close>, the
  bracket \<open>[0.01, 1.0]\<close> and \<open>xtol = 0.001\<close> whatever the caller passes. Called with
  the bracket \<open>[0.5, 0.6]\<close> and the put's price at \<open>v = 0.01\<close> as target, the stock
  wrapper returns \<open>0.01\<close>, outside the caller's bracket; \<open>_implied_volatility\<close>
  itself, given the caller's bracket, does not.
\<close>

theorem wrappers_ignore_search_parameters:
  "implied_volatility_stock otype max_iter lo hi xtol p fs x t r q =
     implied_volatility otype 500 (1 / 100) 1 (1 / 1000) p fs x t r (r - q) \<and>
   implied_volatility_commodity otype max_iter lo hi xtol p fs x t r =
     implied_volatility otype 500 (1 / 100) 1 (1 / 1000) p fs x t r 0 \<and>
   implied_volatility_stock ''put'' 500 (1 / 2) (6 / 10) (1 / 1000)
     (price_of (generalized_black_scholes ''put'' 100 100 1 (5 / 100) (5 / 100) (1 / 100)))
     100 100 1 (5 / 100) 0 = Inr (1 / 100) \<and>
   implied_volatility ''put'' 500 (1 / 2) (6 / 10) (1 / 1000)
     (price_of (generalized_black_scholes ''put'' 100 100 1 (5 / 100) (5 / 100) (1 / 100)))
     100 100 1 (5 / 100) (5 / 100) \<noteq> Inr (1 / 100)"
proof (intro conjI)
  define p_lo where
    "p_lo = price_of (generalized_black_scholes ''put'' 100 100 1 (5 / 100) (5 / 100) (1 / 100))"
  show "implied_volatility_stock otype max_iter lo hi xtol p fs x t r q =
     implied_volatility otype 500 (1 / 100) 1 (1 / 1000) p fs x t r (r - q)"
    by (simp add: implied_volatility_stock_def)
  show "implied_volatility_commodity otype max_iter lo hi xtol p fs x t r =
     implied_volatility otype 500 (1 / 100) 1 (1 / 1000) p fs x t r 0"
    by (simp add: implied_volatility_commodity_def)
  have lo: "obj ''put'' p_lo 100 100 1 (5 / 100) (5 / 100) (1 / 100) = Inr \<bar>p_lo - p_lo\<bar>"
    unfolding p_lo_def by (rule obj_put_value) simp_all
  have hi: "obj ''put'' p_lo 100 100 1 (5 / 100) (5 / 100) 1 =
      Inr \<bar>price_of (generalized_black_scholes ''put'' 100 100 1 (5 / 100) (5 / 100) 1) - p_lo\<bar>"
    by (rule obj_put_value) simp_all
  have "implied_volatility_stock ''put'' 500 (1 / 2) (6 / 10) (1 / 1000) p_lo 100 100 1 (5 / 100) 0
      = Inr (1 / 100)"
    using lo hi by (simp add: implied_volatility_stock_def implied_volatility_def bisect_def)
  then show "implied_volatility_stock ''put'' 500 (1 / 2) (6 / 10) (1 / 1000)
     (price_of (generalized_black_scholes ''put'' 100 100 1 (5 / 100) (5 / 100) (1 / 100)))
     100 100 1 (5 / 100) 0 = Inr (1 / 100)"
    by (simp add: p_lo_def)
  show "implied_volatility ''put'' 500 (1 / 2) (6 / 10) (1 / 1000)
     (price_of (generalized_black_scholes ''put'' 100 100 1 (5 / 100) (5 / 100) (1 / 100)))
     100 100 1 (5 / 100) (5 / 100) \<noteq> Inr (1 / 100)"
  proof
    assume "implied_volatility ''put'' 500 (1 / 2) (6 / 10) (1 / 1000)
     (price_of (generalized_black_scholes ''put'' 100 100 1 (5 / 100) (5 / 100) (1 / 100)))
     100 100 1 (5 / 100) (5 / 100) = Inr (1 / 100)"
    from implied_volatility_returns_endpoint [OF this]
    have "(1 / 100 :: real) = 1 / 2 \<or> (1 / 100 :: real) = 6 / 10" by blast
    then show False by simp
  qed
qed

end
